theory Spec2Isabelle
  imports Main "HOL-Library.Word"
begin

section \<open>Values exchanged with the outside world\<close>

text \<open>
  A JavaScript \<open>Error\<close> object, as a rejected promise or a callback hands it over.
  \<open>toString_error\<close> is \<open>Error.prototype.toString\<close>: the name, the message, or both
  joined by a colon.
\<close>

record js_error =
  err_name :: string
  err_message :: string

definition toString_error :: "js_error \<Rightarrow> string" where
  "toString_error e =
     (if err_name e = [] then err_message e
      else if err_message e = [] then err_name e
      else err_name e @ '': '' @ err_message e)"

definition Error :: "string \<Rightarrow> js_error" where
  "Error msg = \<lparr>err_name = ''Error'', err_message = msg\<rparr>"

text \<open>
  What a handler passes to \<open>res.send\<close>. \<open>JError\<close> is a raw error object handed to
  \<open>res.send\<close> as it is (the read routes do so).
\<close>

datatype json =
    JStr string
  | JNum nat
  | JArr "json list"
  | JObj "(string \<times> json) list"
  | JError js_error

text \<open>What the process writes with \<open>console.log\<close> and \<open>console.error\<close>.\<close>

datatype log_entry =
    LogInfo string
  | LogError js_error

section \<open>String helpers of the token id\<close>

text \<open>
  The regular expression \<open>/^\d+$/g\<close> of the metadata route: in JavaScript \<open>\d\<close> is
  one of the ten ASCII digits and, without the \<open>m\<close> flag, \<open>^\<close> and \<open>$\<close> are the two
  ends of the input. \<open>String.prototype.match\<close> returns \<open>null\<close> (falsy) when nothing
  matches.
\<close>

definition is_digit :: "char \<Rightarrow> bool" where
  "is_digit c = (c \<in> set ''0123456789'')"

fun digits_only :: "string \<Rightarrow> bool" where
  "digits_only [] = True"
| "digits_only (c # cs) = (is_digit c \<and> digits_only cs)"

definition match_digits :: "string \<Rightarrow> bool" where
  "match_digits s = (s \<noteq> [] \<and> digits_only s)"

text \<open>
  \<open>web3.utils.randomHex(size)\<close> draws \<open>size\<close> random bytes and returns them as
  lower-case hexadecimal behind \<open>0x\<close>. The random source is the argument \<open>rng\<close>: byte
  \<open>i\<close> of the draw is \<open>rng i\<close>.
\<close>

definition hex_digit :: "nat \<Rightarrow> char" where
  "hex_digit n = ''0123456789abcdef'' ! n"

definition hex_byte :: "8 word \<Rightarrow> string" where
  "hex_byte b = [hex_digit (unat b div 16), hex_digit (unat b mod 16)]"

definition randomBytes :: "nat \<Rightarrow> (nat \<Rightarrow> 8 word) \<Rightarrow> 8 word list" where
  "randomBytes sz rng = map rng [0..<sz]"

definition randomHex :: "nat \<Rightarrow> (nat \<Rightarrow> 8 word) \<Rightarrow> string" where
  "randomHex sz rng = ''0x'' @ concat (map hex_byte (randomBytes sz rng))"

text \<open>
  \<open>web3.utils.hexToNumberString(hex)\<close> returns an empty argument as it is and is
  \<open>toBN(hex).toString(10)\<close> otherwise. On a string behind \<open>0x\<close>, \<open>toBN\<close> reads the
  rest as a base-16 number (upper or lower case, the empty rest as zero) and throws on any
  other character. The program passes it the result of \<open>randomHex\<close> only; what the
  library does with a string that lacks the \<open>0x\<close> prefix is not modelled, such a string
  is reported as the same error. Both functions belong to the web3 library, not to this
  repository: they are written here after the library's documented behaviour.
\<close>

definition hex_val :: "char \<Rightarrow> nat option" where
  "hex_val c = map_of
     [(CHR ''0'', 0), (CHR ''1'', 1), (CHR ''2'', 2), (CHR ''3'', 3), (CHR ''4'', 4),
      (CHR ''5'', 5), (CHR ''6'', 6), (CHR ''7'', 7), (CHR ''8'', 8), (CHR ''9'', 9),
      (CHR ''a'', 10), (CHR ''b'', 11), (CHR ''c'', 12), (CHR ''d'', 13), (CHR ''e'', 14),
      (CHR ''f'', 15), (CHR ''A'', 10), (CHR ''B'', 11), (CHR ''C'', 12), (CHR ''D'', 13),
      (CHR ''E'', 14), (CHR ''F'', 15)] c"

fun parse_hex :: "nat \<Rightarrow> string \<Rightarrow> nat option" where
  "parse_hex acc [] = Some acc"
| "parse_hex acc (c # cs) =
     (case hex_val c of None \<Rightarrow> None | Some d \<Rightarrow> parse_hex (16 * acc + d) cs)"

fun toString10 :: "nat \<Rightarrow> string" where
  "toString10 n =
     (if n < 10 then [hex_digit n] else toString10 (n div 10) @ [hex_digit (n mod 10)])"

declare toString10.simps [simp del]

definition toBN :: "string \<Rightarrow> js_error + nat" where
  "toBN s =
     (if take 2 s = ''0x'' then
        (case parse_hex 0 (drop 2 s) of
           Some n \<Rightarrow> Inr n
         | None \<Rightarrow> Inl (Error (''[number-to-bn] invalid number value '' @ s)))
      else Inl (Error (''[number-to-bn] invalid number value '' @ s)))"

definition hexToNumberString :: "string \<Rightarrow> js_error + string" where
  "hexToNumberString s =
     (if s = [] then Inr s
      else (case toBN s of Inl e \<Rightarrow> Inl e | Inr n \<Rightarrow> Inr (toString10 n)))"

text \<open>The number that a sequence of bytes denotes, most significant byte first.\<close>

fun be_value :: "nat \<Rightarrow> 8 word list \<Rightarrow> nat" where
  "be_value acc [] = acc"
| "be_value acc (b # bs) = be_value (256 * acc + unat b) bs"

text \<open>
  A contract method of web3 encodes its arguments when \<open>call()\<close> is invoked, before any
  promise exists, and throws when it cannot. For a \<open>uint256\<close> argument given as a string
  it needs a number: decimal digits, or hexadecimal digits behind \<open>0x\<close>, denoting a value
  below \<open>2^256\<close>. This too is the library's behaviour, written after its documentation.
\<close>

definition dec_val :: "char \<Rightarrow> nat option" where
  "dec_val c = (if is_digit c then hex_val c else None)"

fun parse_dec :: "nat \<Rightarrow> string \<Rightarrow> nat option" where
  "parse_dec acc [] = Some acc"
| "parse_dec acc (c # cs) =
     (case dec_val c of None \<Rightarrow> None | Some d \<Rightarrow> parse_dec (10 * acc + d) cs)"

definition number_value :: "string \<Rightarrow> nat option" where
  "number_value s =
     (if take 2 s = ''0x'' then parse_hex 0 (drop 2 s)
      else if match_digits s then parse_dec 0 s
      else None)"

definition encodes_uint256 :: "string \<Rightarrow> bool" where
  "encodes_uint256 s = (case number_value s of Some n \<Rightarrow> n < 2 ^ 256 | None \<Rightarrow> False)"

definition invalid_number :: "string \<Rightarrow> js_error" where
  "invalid_number s = Error (''invalid number value '' @ s)"

section \<open>The application object and the chain it talks to\<close>

text \<open>
  The fields that \<open>App.start\<close> assigns on \<open>this\<close>. \<open>contract\<close> is the handle that
  \<open>Contract(...).deployed()\<close> resolves to; the routes read its \<open>options.address\<close>.
\<close>

record contract_handle =
  address :: string

record app_state =
  networkId :: nat
  currentAccount :: string
  contract :: contract_handle
  name :: string
  balance :: string

text \<open>\<open>process.env\<close>, and JavaScript's \<open>a || b\<close> on a string that may be undefined or empty.\<close>

record process_env =
  API_URL :: "string option"
  WEB_URL :: "string option"

definition or_default :: "string option \<Rightarrow> string \<Rightarrow> string" where
  "or_default v d = (case v of Some (c # cs) \<Rightarrow> c # cs | _ \<Rightarrow> d)"

text \<open>
  The method object of \<open>mintWithTokenURI(to, tokenId, tokenURI)\<close> and the options of its
  \<open>send\<close>.
\<close>

record mint_tx =
  mint_to :: string
  mint_tokenId :: string
  mint_tokenURI :: string

record send_options =
  send_from :: string
  send_gas :: nat
  send_gasPrice :: string

text \<open>
  What \<open>method.send(options, callback)\<close> does: it throws at once, it calls back with
  \<open>(error, transactionHash)\<close>, or it never calls back.
\<close>

datatype send_outcome =
    SendThrows js_error
  | SendCallback "js_error option" "string option"
  | SendSilent

text \<open>
  The answers of the node and the contract to each remote call: \<open>Inl\<close> is a rejected
  promise, \<open>Inr\<close> a fulfilled one. The balance of an owner is the number the contract
  returns, which the loop of the token listing compares its index with. These are the
  answers to calls that were made: a method that throws while it encodes a \<open>uint256\<close>
  argument makes no call (\<open>encodes_uint256\<close>). The check web3 makes of an address
  argument is not modelled: the chain answers for every owner and recipient string.
\<close>

record chain =
  totalSupply_call :: "js_error + string"
  name_call :: "js_error + string"
  mintLimit_call :: "js_error + string"
  symbol_call :: "js_error + string"
  balanceOf_call :: "string \<Rightarrow> js_error + nat"
  tokenOfOwnerByIndex_call :: "string \<Rightarrow> nat \<Rightarrow> js_error + string"
  imageId_call :: "string \<Rightarrow> js_error + string"
  tokenURI_call :: "string \<Rightarrow> js_error + string"
  estimateGas_call :: "mint_tx \<Rightarrow> js_error + nat"
  send_call :: "mint_tx \<Rightarrow> send_options \<Rightarrow> send_outcome"

text \<open>The remote calls a handler issues, in the order it issues them.\<close>

datatype call =
    CallTotalSupply
  | CallName
  | CallMintLimit
  | CallSymbol
  | CallBalanceOf string
  | CallTokenOfOwnerByIndex string nat
  | CallImageId string
  | CallTokenURI string
  | EstimateGas mint_tx
  | Send mint_tx send_options

text \<open>
  What one request leads to: the body given to \<open>res.send\<close> (\<open>None\<close> when the handler
  never responds), the remote calls issued, the console lines, and an error that nothing
  catches.
\<close>

record reply =
  body :: "json option"
  calls :: "call list"
  logged :: "log_entry list"
  uncaught :: "js_error option"

definition respond :: "json \<Rightarrow> call list \<Rightarrow> reply" where
  "respond b cs = \<lparr>body = Some b, calls = cs, logged = [], uncaught = None\<rparr>"

section \<open>The routes of \<open>createServer\<close>\<close>

text \<open>\<open>GET /\<close>: the fields of the application object, read as they are.\<close>

definition route_root :: "app_state \<Rightarrow> reply" where
  "route_root a =
     respond (JObj [(''networkId'', JNum (networkId a)),
                    (''contractAddress'', JStr (address (contract a))),
                    (''address'', JStr (currentAccount a)),
                    (''balance'', JStr (balance a)),
                    (''name'', JStr (name a))]) []"

text \<open>\<open>GET /abi\<close>: the contract artifact the module required.\<close>

definition route_abi :: "json \<Rightarrow> reply" where
  "route_abi artifacts = respond artifacts []"

text \<open>
  The four read routes share one shape: the call, then \<open>res.send\<close> of the result or of
  the raw error.
\<close>

definition route_totalSupply :: "chain \<Rightarrow> reply" where
  "route_totalSupply ch =
     (case totalSupply_call ch of
        Inr totalSupply \<Rightarrow> respond (JStr totalSupply) [CallTotalSupply]
      | Inl e \<Rightarrow> respond (JError e) [CallTotalSupply])"

definition route_name :: "chain \<Rightarrow> reply" where
  "route_name ch =
     (case name_call ch of
        Inr n \<Rightarrow> respond (JObj [(''name'', JStr n)]) [CallName]
      | Inl e \<Rightarrow> respond (JError e) [CallName])"

definition route_mintLimit :: "chain \<Rightarrow> reply" where
  "route_mintLimit ch =
     (case mintLimit_call ch of
        Inr mintLimit \<Rightarrow> respond (JObj [(''mintLimit'', JStr mintLimit)]) [CallMintLimit]
      | Inl e \<Rightarrow> respond (JError e) [CallMintLimit])"

definition route_symbol :: "chain \<Rightarrow> reply" where
  "route_symbol ch =
     (case symbol_call ch of
        Inr symbol \<Rightarrow> respond (JObj [(''symbol'', JStr symbol)]) [CallSymbol]
      | Inl e \<Rightarrow> respond (JError e) [CallSymbol])"

text \<open>
  \<open>GET /:ownerAddress/tokens\<close>. The \<open>for\<close> loop issues one
  \<open>tokenOfOwnerByIndex(owner, i)\<close> call per index below the balance and pushes its promise;
  \<open>push_promises\<close> is that loop, each promise kept with the index it was issued for.
\<close>

function push_promises ::
  "chain \<Rightarrow> string \<Rightarrow> nat \<Rightarrow> nat \<Rightarrow> (nat \<times> (js_error + string)) list
     \<Rightarrow> (nat \<times> (js_error + string)) list" where
  "push_promises ch owner i n promises =
     (if i < n
      then push_promises ch owner (Suc i) n (promises @ [(i, tokenOfOwnerByIndex_call ch owner i)])
      else promises)"
  by pat_completeness auto
termination
  by (relation "measure (\<lambda>(ch, owner, i, n, promises). n - i)") auto

declare push_promises.simps [simp del]

text \<open>
  \<open>Promise.all\<close>: fulfilled with the values in the order of the array once every promise
  is fulfilled; rejected with the reason of the promise that rejects first. Which one is
  first depends on the order in which the promises settle: \<open>settle\<close> lists indices in
  that order (indices it leaves out settle afterwards, in array order).
\<close>

fun first_rejection :: "('e + 'a) list \<Rightarrow> nat list \<Rightarrow> 'e option" where
  "first_rejection rs [] = None"
| "first_rejection rs (i # later) =
     (if i < length rs
      then (case rs ! i of Inl e \<Rightarrow> Some e | Inr v \<Rightarrow> first_rejection rs later)
      else first_rejection rs later)"

fun fulfilled_values :: "('e + 'a) list \<Rightarrow> 'a list" where
  "fulfilled_values [] = []"
| "fulfilled_values (Inr v # rs) = v # fulfilled_values rs"
| "fulfilled_values (Inl e # rs) = fulfilled_values rs"

definition promise_all :: "('e + 'a) list \<Rightarrow> nat list \<Rightarrow> 'e + 'a list" where
  "promise_all rs settle =
     (case first_rejection rs (settle @ [0..<length rs]) of
        Some e \<Rightarrow> Inl e
      | None \<Rightarrow> Inr (fulfilled_values rs))"

definition route_owner_tokens :: "chain \<Rightarrow> string \<Rightarrow> nat list \<Rightarrow> reply" where
  "route_owner_tokens ch owner settle =
     (case balanceOf_call ch owner of
        Inl e \<Rightarrow> respond (JError e) [CallBalanceOf owner]
      | Inr n \<Rightarrow>
          (let promises = push_promises ch owner 0 n [];
               issued = CallBalanceOf owner # map (\<lambda>p. CallTokenOfOwnerByIndex owner (fst p)) promises
           in case promise_all (map snd promises) settle of
                Inr tokens \<Rightarrow> respond (JObj [(''tokens'', JArr (map JStr tokens))]) issued
              | Inl e \<Rightarrow> respond (JError e) issued))"

text \<open>\<open>GET /:ownerAddress/balance\<close>.\<close>

definition route_owner_balance :: "chain \<Rightarrow> string \<Rightarrow> reply" where
  "route_owner_balance ch owner =
     (case balanceOf_call ch owner of
        Inr n \<Rightarrow> respond (JObj [(''balance'', JNum n)]) [CallBalanceOf owner]
      | Inl e \<Rightarrow> respond (JError e) [CallBalanceOf owner])"

text \<open>
  \<open>GET /tokens/:tokenId\<close>: the guard on the path parameter, then the \<open>imageId\<close> call.
  Nothing surrounds the call and its promise has no \<open>catch\<close>: when the method throws
  on an id it cannot encode, or when the call fails, the handler never responds.
\<close>

definition invalid_token_id :: json where
  "invalid_token_id = JObj [(''error'', JObj [(''message'', JStr ''Invalid token id passed'')])]"

definition route_tokens_tokenId :: "app_state \<Rightarrow> process_env \<Rightarrow> chain \<Rightarrow> string \<Rightarrow> reply" where
  "route_tokens_tokenId a env ch tokenId =
     (if tokenId = [] \<or> \<not> match_digits tokenId then respond invalid_token_id []
      else if \<not> encodes_uint256 tokenId then
        \<lparr>body = None, calls = [], logged = [], uncaught = Some (invalid_number tokenId)\<rparr>
      else
        (case imageId_call ch tokenId of
           Inr imageIndex \<Rightarrow>
             (let baseUrl = or_default (WEB_URL env) ''https://example-dapp-1.bitski.com'';
                  description = ''An example of an ERC-721 token'';
                  imageUrl = baseUrl @ ''/assets/character-'' @ imageIndex @ ''.png'';
                  erc721Details = [(''name'', JStr (name a)),
                                   (''description'', JStr description),
                                   (''image'', JStr imageUrl)];
                  openSeaExtras = [(''external_url'', JStr baseUrl)];
                  rareBitsExtras = [(''image_url'', JStr imageUrl), (''home_url'', JStr baseUrl)]
              in respond (JObj (erc721Details @ openSeaExtras @ rareBitsExtras))
                   [CallImageId tokenId])
         | Inl e \<Rightarrow>
             \<lparr>body = None, calls = [CallImageId tokenId], logged = [], uncaught = Some e\<rparr>))"

text \<open>
  \<open>GET /tokenURI/:tokenId\<close>: the path parameter goes to the contract method as it
  came. The \<open>catch\<close> belongs to the promise: when the method throws on an id it cannot
  encode, no promise exists, the handler sends nothing and the error is left to Express.
\<close>

definition route_tokenURI :: "chain \<Rightarrow> string \<Rightarrow> reply" where
  "route_tokenURI ch tokenId =
     (if \<not> encodes_uint256 tokenId then
        \<lparr>body = None, calls = [], logged = [], uncaught = Some (invalid_number tokenId)\<rparr>
      else
        (case tokenURI_call ch tokenId of
           Inr uri \<Rightarrow> respond (JObj [(''tokenURI'', JStr uri)]) [CallTokenURI tokenId]
         | Inl err \<Rightarrow>
             respond (JObj [(''error'', JStr (toString_error err))]) [CallTokenURI tokenId]))"

text \<open>
  \<open>POST /tokens/new\<close>: a random token id, its decimal rendering inside the token URI,
  the gas estimate, then the send and its callback.
\<close>

definition error_body :: "string \<Rightarrow> json" where
  "error_body msg = JObj [(''error'', JStr msg)]"

definition send_callback ::
  "string \<Rightarrow> call list \<Rightarrow> js_error option \<Rightarrow> string option \<Rightarrow> reply" where
  "send_callback tokenId issued error transactionHash =
     (case error of
        Some e \<Rightarrow>
          \<lparr>body = Some (error_body (toString_error e)), calls = issued,
           logged = [LogError e], uncaught = None\<rparr>
      | None \<Rightarrow>
          (case transactionHash of
             Some (c # cs) \<Rightarrow>
               respond (JObj [(''transactionHash'', JStr (c # cs)), (''tokenId'', JStr tokenId)])
                 issued
           | _ \<Rightarrow> respond (error_body ''The transaction hash could not be found.'') issued))"

definition route_tokens_new ::
  "app_state \<Rightarrow> process_env \<Rightarrow> chain \<Rightarrow> string \<Rightarrow> (nat \<Rightarrow> 8 word) \<Rightarrow> reply" where
  "route_tokens_new a env ch to rng =
     (let tokenId = randomHex 32 rng in
      case hexToNumberString tokenId of
        Inl e \<Rightarrow> \<lparr>body = None, calls = [], logged = [], uncaught = Some e\<rparr>
      | Inr tokenIdString \<Rightarrow>
          (let baseUrl = or_default (API_URL env) ''https://example-dapp-1-api.bitski.com'';
               tokenURI = baseUrl @ ''/tokens/'' @ tokenIdString;
               method = \<lparr>mint_to = to, mint_tokenId = tokenId, mint_tokenURI = tokenURI\<rparr>
           in case estimateGas_call ch method of
                Inl e \<Rightarrow> respond (error_body (toString_error e)) [EstimateGas method]
              | Inr gas \<Rightarrow>
                  (let options = \<lparr>send_from = currentAccount a, send_gas = gas,
                                  send_gasPrice = ''1100000000''\<rparr>;
                       issued = [EstimateGas method, Send method options]
                   in case send_call ch method options of
                        SendThrows e \<Rightarrow>
                          \<lparr>body = Some (error_body (toString_error e)), calls = issued,
                           logged = [LogError e], uncaught = None\<rparr>
                      | SendCallback error transactionHash \<Rightarrow>
                          send_callback tokenId issued error transactionHash
                      | SendSilent \<Rightarrow>
                          \<lparr>body = None, calls = issued, logged = [], uncaught = None\<rparr>)))"

section \<open>The running process\<close>

text \<open>
  A request as Express hands it to the handler that runs, with what that handler reads of
  it: the path parameter or the query parameter \<open>to\<close>. The token listing carries the
  order in which its promises settle, the mint the bytes its random draw returns.
\<close>

datatype request =
    GetRoot
  | GetAbi
  | GetTotalSupply
  | GetName
  | GetMintLimit
  | GetSymbol
  | GetOwnerTokens string "nat list"
  | GetOwnerBalance string
  | GetTokenMetadata string
  | GetTokenURI string
  | PostTokensNew string "nat \<Rightarrow> 8 word"

record transfer_event =
  ev_to :: string
  ev_from :: string
  ev_tokenId :: string

text \<open>
  The application object together with what the JavaScript runtime holds for it: the
  clock in milliseconds, the due times of the pending \<open>setTimeout\<close> callbacks, the
  balance queries of the refresh loop whose promise has not settled yet (each named by the
  number of queries issued before it), the console, the port the server listens on, the
  Transfer subscription, and the outcome of every request served.
\<close>

record runtime =
  app :: app_state
  penv :: process_env
  artifacts :: json
  clock :: nat
  timers :: "nat list"
  inflight :: "nat list"
  queries :: nat
  console :: "log_entry list"
  listening :: "nat option"
  subscribed :: bool
  replies :: "reply list"

definition setTimeout :: "nat \<Rightarrow> runtime \<Rightarrow> runtime" where
  "setTimeout delay rt = rt\<lparr>timers := timers rt @ [clock rt + delay]\<rparr>"

text \<open>
  \<open>updateBalance\<close> only arms the timer. \<open>updateBalance_timeout\<close> is the callback it
  arms: it issues \<open>getBalance\<close> and, in the same turn, calls \<open>updateBalance\<close> again.
  \<open>getBalance_then\<close> and \<open>getBalance_catch\<close> are the two continuations of the query.
\<close>

definition updateBalance :: "runtime \<Rightarrow> runtime" where
  "updateBalance rt = setTimeout (60 * 1000) rt"

definition updateBalance_timeout :: "runtime \<Rightarrow> runtime" where
  "updateBalance_timeout rt =
     updateBalance (rt\<lparr>inflight := inflight rt @ [queries rt], queries := Suc (queries rt)\<rparr>)"

definition getBalance_then :: "string \<Rightarrow> runtime \<Rightarrow> runtime" where
  "getBalance_then b rt =
     rt\<lparr>app := (app rt)\<lparr>balance := b\<rparr>,
        console := console rt @ [LogInfo (''Current balance: '' @ b)]\<rparr>"

definition getBalance_catch :: "js_error \<Rightarrow> runtime \<Rightarrow> runtime" where
  "getBalance_catch e rt = rt\<lparr>console := console rt @ [LogError e]\<rparr>"

text \<open>\<open>watchTransferEvents\<close>: the subscription and its two listeners.\<close>

definition watchTransferEvents :: "runtime \<Rightarrow> runtime" where
  "watchTransferEvents rt = rt\<lparr>subscribed := True\<rparr>"

definition transfer_data :: "transfer_event \<Rightarrow> runtime \<Rightarrow> runtime" where
  "transfer_data ev rt =
     rt\<lparr>console := console rt @
        [LogInfo (''Token '' @ ev_tokenId ev @ '' was transferred from '' @ ev_from ev @
                  '' to '' @ ev_to ev)]\<rparr>"

definition transfer_error :: "js_error \<Rightarrow> runtime \<Rightarrow> runtime" where
  "transfer_error e rt =
     rt\<lparr>console := console rt @ [LogInfo ''Error subscribing'', LogError e]\<rparr>"

text \<open>\<open>createServer\<close>: the routes, then \<open>listen\<close> and its log line.\<close>

definition handle :: "runtime \<Rightarrow> request \<Rightarrow> chain \<Rightarrow> reply" where
  "handle rt req ch =
     (case req of
        GetRoot \<Rightarrow> route_root (app rt)
      | GetAbi \<Rightarrow> route_abi (artifacts rt)
      | GetTotalSupply \<Rightarrow> route_totalSupply ch
      | GetName \<Rightarrow> route_name ch
      | GetMintLimit \<Rightarrow> route_mintLimit ch
      | GetSymbol \<Rightarrow> route_symbol ch
      | GetOwnerTokens owner settle \<Rightarrow> route_owner_tokens ch owner settle
      | GetOwnerBalance owner \<Rightarrow> route_owner_balance ch owner
      | GetTokenMetadata tokenId \<Rightarrow> route_tokens_tokenId (app rt) (penv rt) ch tokenId
      | GetTokenURI tokenId \<Rightarrow> route_tokenURI ch tokenId
      | PostTokensNew to rng \<Rightarrow> route_tokens_new (app rt) (penv rt) ch to rng)"

definition createServer :: "nat \<Rightarrow> runtime \<Rightarrow> runtime" where
  "createServer port rt =
     rt\<lparr>listening := Some port,
        console := console rt @ [LogInfo (''Listening on port '' @ toString10 port @ ''!'')]\<rparr>"

text \<open>
  Which handler answers a request. Express tries the routes in the order \<open>createServer\<close>
  registers them and the first whose path pattern matches answers, none of the handlers
  passing the request on. With the settings of a plain \<open>Express()\<close> a pattern compares
  its literal segments without regard to letter case, a parameter stands for one
  non-empty segment, and one trailing slash is ignored. The path is given by its segments
  (percent-escapes are not modelled); \<open>None\<close> is a request that no route answers.
\<close>

datatype http_method = GET | POST | OtherMethod

definition lower_char :: "char \<Rightarrow> char" where
  "lower_char c =
     (case map_of (zip ''ABCDEFGHIJKLMNOPQRSTUVWXYZ'' ''abcdefghijklmnopqrstuvwxyz'') c of
        Some l \<Rightarrow> l
      | None \<Rightarrow> c)"

definition same_segment :: "string \<Rightarrow> string \<Rightarrow> bool" where
  "same_segment seg literal = (map lower_char seg = map lower_char literal)"

definition express_dispatch ::
  "http_method \<Rightarrow> string list \<Rightarrow> string \<Rightarrow> nat list \<Rightarrow> (nat \<Rightarrow> 8 word) \<Rightarrow> request option" where
  "express_dispatch m segs to settle rng =
     (case m of
        GET \<Rightarrow>
          (case segs of
             [] \<Rightarrow> Some GetRoot
           | [a] \<Rightarrow>
               if same_segment a ''abi'' then Some GetAbi
               else if same_segment a ''totalSupply'' then Some GetTotalSupply
               else if same_segment a ''name'' then Some GetName
               else if same_segment a ''mintLimit'' then Some GetMintLimit
               else if same_segment a ''symbol'' then Some GetSymbol
               else None
           | [a, b] \<Rightarrow>
               if a \<noteq> [] \<and> same_segment b ''tokens'' then Some (GetOwnerTokens a settle)
               else if a \<noteq> [] \<and> same_segment b ''balance'' then Some (GetOwnerBalance a)
               else if same_segment a ''tokens'' \<and> b \<noteq> [] then Some (GetTokenMetadata b)
               else if same_segment a ''tokenURI'' \<and> b \<noteq> [] then Some (GetTokenURI b)
               else None
           | _ \<Rightarrow> None)
      | POST \<Rightarrow>
          (case segs of
             [a, b] \<Rightarrow>
               if same_segment a ''tokens'' \<and> same_segment b ''new''
               then Some (PostTokensNew to rng) else None
           | _ \<Rightarrow> None)
      | OtherMethod \<Rightarrow> None)"

definition serve ::
  "runtime \<Rightarrow> http_method \<Rightarrow> string list \<Rightarrow> string \<Rightarrow> nat list \<Rightarrow> (nat \<Rightarrow> 8 word) \<Rightarrow> chain
     \<Rightarrow> reply option" where
  "serve rt m segs to settle rng ch =
     map_option (\<lambda>req. handle rt req ch) (express_dispatch m segs to settle rng)"

section \<open>Startup\<close>

text \<open>
  The answers \<open>App.start\<close> awaits, in the order it awaits them. The module
  \<open>./contract\<close> behind \<open>new Contract(web3, networkId, artifacts).deployed()\<close> is not
  among the sources at hand: what it resolves or rejects with for a network id is taken
  from the environment, like the answers of the node.
\<close>

record startup =
  getAccounts_result :: "js_error + string list"
  getBalance_result :: "string \<Rightarrow> js_error + string"
  getId_result :: "js_error + nat"
  deployed_result :: "nat \<Rightarrow> js_error + contract_handle"
  name_result :: "js_error + string"

text \<open>
  The process after \<open>start\<close>: it has left through \<open>process.exit\<close> with a code, or it
  runs.
\<close>

datatype process =
    Exited nat "log_entry list"
  | Running runtime

text \<open>The \<open>catch\<close> of \<open>start\<close>: \<open>console.error(error)\<close>, then \<open>process.exit(1)\<close>.\<close>

definition start_catch :: "log_entry list \<Rightarrow> js_error \<Rightarrow> process" where
  "start_catch lg e = Exited 1 (lg @ [LogError e])"

definition start :: "process_env \<Rightarrow> json \<Rightarrow> startup \<Rightarrow> nat \<Rightarrow> process" where
  "start env arts st port =
     (let lg = [LogInfo ''starting app...''] in
      case getAccounts_result st of
        Inl e \<Rightarrow> start_catch lg e
      | Inr accounts \<Rightarrow>
      (case accounts of
        [] \<Rightarrow> start_catch lg (Error ''No account found'')
      | account0 # others \<Rightarrow>
      (case getBalance_result st account0 of
        Inl e \<Rightarrow> start_catch lg e
      | Inr bal \<Rightarrow>
      (case getId_result st of
        Inl e \<Rightarrow> start_catch lg e
      | Inr nid \<Rightarrow>
      (case deployed_result st nid of
        Inl e \<Rightarrow> start_catch lg e
      | Inr deployed \<Rightarrow>
      (case name_result st of
        Inl e \<Rightarrow> start_catch lg e
      | Inr nm \<Rightarrow>
          Running (watchTransferEvents (updateBalance (createServer port
            \<lparr>app = \<lparr>networkId = nid, currentAccount = account0, contract = deployed,
                     name = nm, balance = bal\<rparr>,
             penv = env, artifacts = arts, clock = 0, timers = [], inflight = [],
             queries = 0, console = lg, listening = None, subscribed = False,
             replies = []\<rparr>)))))))))"

section \<open>What happens after startup\<close>

text \<open>
  The turns of the event loop once the process runs. Time passes; the pending timer
  fires once it is due; the promise of a balance query that is in flight settles; a
  request is served against the chain as it answers then; the subscription delivers a
  Transfer event or an error. \<open>step\<close> is \<open>None\<close> for a turn that cannot happen in the
  state.
\<close>

datatype event =
    Elapse nat
  | TimerFires
  | BalanceSettles nat "js_error + string"
  | Http request chain
  | TransferData transfer_event
  | TransferError js_error

fun step :: "runtime \<Rightarrow> event \<Rightarrow> runtime option" where
  "step rt (Elapse d) = Some (rt\<lparr>clock := clock rt + d\<rparr>)"
| "step rt TimerFires =
     (case timers rt of
        [] \<Rightarrow> None
      | due # pending \<Rightarrow>
          if due \<le> clock rt then Some (updateBalance_timeout (rt\<lparr>timers := pending\<rparr>))
          else None)"
| "step rt (BalanceSettles q r) =
     (if q \<in> set (inflight rt)
      then (case r of
              Inr b \<Rightarrow> Some (getBalance_then b (rt\<lparr>inflight := remove1 q (inflight rt)\<rparr>))
            | Inl e \<Rightarrow> Some (getBalance_catch e (rt\<lparr>inflight := remove1 q (inflight rt)\<rparr>)))
      else None)"
| "step rt (Http req ch) =
     (case listening rt of
        None \<Rightarrow> None
      | Some port \<Rightarrow>
          (let r = handle rt req ch
           in Some (rt\<lparr>console := console rt @ logged r, replies := replies rt @ [r]\<rparr>)))"
| "step rt (TransferData ev) =
     (if subscribed rt then Some (transfer_data ev rt) else None)"
| "step rt (TransferError e) =
     (if subscribed rt then Some (transfer_error e rt) else None)"

fun run :: "runtime \<Rightarrow> event list \<Rightarrow> runtime option" where
  "run rt [] = Some rt"
| "run rt (ev # evs) = (case step rt ev of None \<Rightarrow> None | Some rt' \<Rightarrow> run rt' evs)"

section \<open>Concrete inputs\<close>

text \<open>
  A chain on which every call is answered, one on which every call fails, the answers of
  a startup that goes through, and the runtime that startup leaves behind.
\<close>

definition sample_error :: js_error where
  "sample_error = Error ''connection refused''"

definition zero_rng :: "nat \<Rightarrow> 8 word" where
  "zero_rng i = 0"

definition sample_env :: process_env where
  "sample_env = \<lparr>API_URL = None, WEB_URL = None\<rparr>"

definition sample_artifacts :: json where
  "sample_artifacts = JObj [(''contractName'', JStr ''LimitedMintableNonFungibleToken'')]"

definition sample_chain :: chain where
  "sample_chain =
     \<lparr>totalSupply_call = Inr ''2'',
      name_call = Inr ''Token'',
      mintLimit_call = Inr ''5'',
      symbol_call = Inr ''TKN'',
      balanceOf_call = (\<lambda>owner. Inr 2),
      tokenOfOwnerByIndex_call = (\<lambda>owner i. Inr (if i = 0 then ''7'' else ''9'')),
      imageId_call = (\<lambda>tokenId. Inr ''3''),
      tokenURI_call = (\<lambda>tokenId. Inr ''https://example-dapp-1-api.bitski.com/tokens/7''),
      estimateGas_call = (\<lambda>m. Inr 90000),
      send_call = (\<lambda>m options. SendCallback None (Some ''0xabc''))\<rparr>"

definition failing_chain :: chain where
  "failing_chain =
     \<lparr>totalSupply_call = Inl sample_error,
      name_call = Inl sample_error,
      mintLimit_call = Inl sample_error,
      symbol_call = Inl sample_error,
      balanceOf_call = (\<lambda>owner. Inl sample_error),
      tokenOfOwnerByIndex_call = (\<lambda>owner i. Inl sample_error),
      imageId_call = (\<lambda>tokenId. Inl sample_error),
      tokenURI_call = (\<lambda>tokenId. Inl sample_error),
      estimateGas_call = (\<lambda>m. Inl sample_error),
      send_call = (\<lambda>m options. SendThrows sample_error)\<rparr>"

definition sample_startup :: startup where
  "sample_startup =
     \<lparr>getAccounts_result = Inr [''0xA1''],
      getBalance_result = (\<lambda>account. Inr ''1000''),
      getId_result = Inr 4,
      deployed_result = (\<lambda>nid. Inr \<lparr>address = ''0xC0''\<rparr>),
      name_result = Inr ''Token''\<rparr>"

definition sample_app :: app_state where
  "sample_app =
     \<lparr>networkId = 4, currentAccount = ''0xA1'', contract = \<lparr>address = ''0xC0''\<rparr>,
      name = ''Token'', balance = ''1000''\<rparr>"

definition booted :: runtime where
  "booted =
     \<lparr>app = sample_app, penv = sample_env, artifacts = sample_artifacts, clock = 0,
      timers = [60000], inflight = [], queries = 0,
      console = [LogInfo ''starting app...'', LogInfo ''Listening on port 3000!''],
      listening = Some 3000, subscribed = True, replies = []\<rparr>"

text \<open>The same runtime one minute later, after the first tick: one query is in flight.\<close>

definition ticking :: runtime where
  "ticking = booted\<lparr>clock := 60000, timers := [120000], inflight := [0], queries := 1\<rparr>"

text \<open>Which turns are a tick of the refresh timer, and which settle one of its queries.\<close>

fun is_tick :: "event \<Rightarrow> bool" where
  "is_tick TimerFires = True"
| "is_tick ev = False"

fun is_settle :: "event \<Rightarrow> bool" where
  "is_settle (BalanceSettles q r) = True"
| "is_settle ev = False"

text \<open>
  The balance that a sequence of turns leaves behind, read off the turns alone: each
  refresh query that settles with a result replaces it, nothing else does.
\<close>

fun settle_event :: "string \<Rightarrow> event \<Rightarrow> string" where
  "settle_event b (BalanceSettles q (Inr b')) = b'"
| "settle_event b ev = b"

definition settled_balance :: "string \<Rightarrow> event list \<Rightarrow> string" where
  "settled_balance b evs = foldl settle_event b evs"

text \<open>
  A startup in which only the \<open>name()\<close> call fails; turns in which no refresh query
  brings a result; and turns in which the first query is still unanswered a minute after
  it was issued.
\<close>

definition nameless_startup :: startup where
  "nameless_startup = sample_startup\<lparr>name_result := Inl sample_error\<rparr>"

definition quiet_turns :: "event list" where
  "quiet_turns =
     [Http GetRoot sample_chain,
      TransferData \<lparr>ev_to = ''0xB0B'', ev_from = ''0xA1'', ev_tokenId = ''7''\<rparr>,
      Elapse 60000, TimerFires,
      Http (GetTokenURI ''7x'') failing_chain,
      TransferError sample_error,
      BalanceSettles 0 (Inl sample_error)]"

definition slow_query_turns :: "event list" where
  "slow_query_turns = [Elapse 60000, TimerFires, Elapse 60000, TimerFires]"

text \<open>
  A chain on which the owner holds two tokens and the read of the second one fails.
\<close>

definition flaky_chain :: chain where
  "flaky_chain =
     sample_chain\<lparr>tokenOfOwnerByIndex_call :=
       (\<lambda>owner i. if i = 1 then Inl sample_error else Inr ''7'')\<rparr>"

text \<open>
  When the pending timer is due after a sequence of turns, read off the turns alone: a
  tick arms the next one 60 seconds after the time at which it runs.
\<close>

fun next_due :: "nat \<Rightarrow> nat \<Rightarrow> event list \<Rightarrow> nat" where
  "next_due now due [] = due"
| "next_due now due (Elapse d # evs) = next_due (now + d) due evs"
| "next_due now due (TimerFires # evs) = next_due now (now + 60000) evs"
| "next_due now due (ev # evs) = next_due now due evs"

text \<open>
  The token id that thirty-two zero bytes render to, and the slow-query turns followed by
  the late answer to the first query.
\<close>

definition zero_hex :: string where
  "zero_hex = ''0x0000000000000000000000000000000000000000000000000000000000000000''"

definition answered_late :: "event list" where
  "answered_late = slow_query_turns @ [BalanceSettles 0 (Inr ''999'')]"

section \<open>Token ids as strings\<close>

lemma hex_table: "map (\<lambda>n. hex_val (hex_digit n)) [0..<16] = map Some [0..<16]"
  by (simp add: upt_rec hex_val_def hex_digit_def)

lemma hex_val_hex_digit: "n < 16 \<Longrightarrow> hex_val (hex_digit n) = Some n"
proof -
  assume less: "n < 16"
  have "map (\<lambda>n. hex_val (hex_digit n)) [0..<16] ! n = map Some [0..<16] ! n"
    by (simp only: hex_table)
  with less show ?thesis
    by (simp only: nth_map length_upt nth_upt diff_zero add_0)
qed

lemma parse_hex_byte: "parse_hex acc (hex_byte b @ cs) = parse_hex (256 * acc + unat b) cs"
proof -
  have "unat b < 2 ^ LENGTH(8)" by (rule unsigned_less)
  then have d: "unat b div 16 < 16" by simp
  have m: "unat b mod 16 < 16" by simp
  have "16 * (16 * acc + unat b div 16) + unat b mod 16 = 256 * acc + unat b" by presburger
  then show ?thesis
    by (simp add: hex_byte_def hex_val_hex_digit [OF d] hex_val_hex_digit [OF m] add.commute)
qed

lemma parse_hex_bytes: "parse_hex acc (concat (map hex_byte bs)) = Some (be_value acc bs)"
  by (induction bs arbitrary: acc) (simp_all add: parse_hex_byte)

lemma toBN_randomHex: "toBN (randomHex sz rng) = Inr (be_value 0 (randomBytes sz rng))"
  by (simp add: toBN_def randomHex_def parse_hex_bytes)

lemma hexToNumberString_randomHex:
  "hexToNumberString (randomHex sz rng) = Inr (toString10 (be_value 0 (randomBytes sz rng)))"
proof -
  have "randomHex sz rng \<noteq> []" by (simp add: randomHex_def)
  then show ?thesis by (simp add: hexToNumberString_def toBN_randomHex)
qed

lemma digit_table: "list_all is_digit (map hex_digit [0..<10])"
  by (simp add: upt_rec is_digit_def hex_digit_def)

lemma is_digit_hex_digit: "n < 10 \<Longrightarrow> is_digit (hex_digit n)"
proof -
  assume "n < 10"
  then have "hex_digit n \<in> set (map hex_digit [0..<10])" by simp
  with digit_table show ?thesis
    by (simp only: list_all_iff)
qed

lemma digits_only_append: "digits_only (xs @ ys) = (digits_only xs \<and> digits_only ys)"
  by (induction xs) auto

lemma toString10_nonempty: "toString10 n \<noteq> []"
  by (subst toString10.simps) simp

lemma digits_only_toString10: "digits_only (toString10 n)"
proof (induction n rule: toString10.induct)
  case (1 n)
  show ?case
  proof (cases "n < 10")
    case True
    then show ?thesis by (subst toString10.simps) (simp add: is_digit_hex_digit)
  next
    case False
    then have "digits_only (toString10 (n div 10))" using "1.IH" by simp
    moreover have "is_digit (hex_digit (n mod 10))" by (simp add: is_digit_hex_digit)
    ultimately show ?thesis using False
      by (subst toString10.simps) (simp add: digits_only_append)
  qed
qed

lemma match_digits_toString10: "match_digits (toString10 n)"
  by (simp add: match_digits_def toString10_nonempty digits_only_toString10)

lemma length_hex_bytes: "length (concat (map hex_byte bs)) = 2 * length bs"
  by (induction bs) (simp_all add: hex_byte_def)

lemma length_randomHex: "length (randomHex sz rng) = 2 + 2 * sz"
  by (simp add: randomHex_def length_hex_bytes randomBytes_def del: map_map)

lemma randomHex_not_decimal: "\<not> match_digits (randomHex sz rng)"
  by (simp add: randomHex_def match_digits_def is_digit_def)

lemma parse_dec_snoc:
  "parse_dec acc (xs @ [c]) =
     (case parse_dec acc xs of
        None \<Rightarrow> None
      | Some v \<Rightarrow> (case dec_val c of None \<Rightarrow> None | Some d \<Rightarrow> Some (10 * v + d)))"
  by (induction xs arbitrary: acc) (simp_all split: option.splits)

lemma dec_val_hex_digit: "n < 10 \<Longrightarrow> dec_val (hex_digit n) = Some n"
  by (simp add: dec_val_def is_digit_hex_digit hex_val_hex_digit)

lemma parse_dec_toString10: "parse_dec 0 (toString10 n) = Some n"
proof (induction n rule: toString10.induct)
  case (1 n)
  show ?case
  proof (cases "n < 10")
    case True
    then show ?thesis by (subst toString10.simps) (simp add: dec_val_hex_digit)
  next
    case False
    then have "parse_dec 0 (toString10 (n div 10)) = Some (n div 10)" using "1.IH" by simp
    then show ?thesis using False
      by (subst toString10.simps) (simp add: parse_dec_snoc dec_val_hex_digit)
  qed
qed

lemma be_value_bound: "be_value acc bs < (acc + 1) * 256 ^ length bs"
proof (induction bs arbitrary: acc)
  case Nil
  show ?case by simp
next
  case (Cons b bs)
  have "unat b < 2 ^ LENGTH(8)" by (rule unsigned_less)
  then have "256 * acc + unat b + 1 \<le> (acc + 1) * 256" by simp
  then have "(256 * acc + unat b + 1) * 256 ^ length bs \<le> ((acc + 1) * 256) * 256 ^ length bs"
    by (rule mult_le_mono1)
  moreover have "be_value (256 * acc + unat b) bs < (256 * acc + unat b + 1) * 256 ^ length bs"
    by (rule Cons.IH)
  ultimately have "be_value (256 * acc + unat b) bs < ((acc + 1) * 256) * 256 ^ length bs"
    by (rule less_le_trans [rotated])
  then show ?case by (simp add: algebra_simps)
qed

lemma digits_not_hex_prefixed: "digits_only s \<Longrightarrow> take 2 s \<noteq> ''0x''"
proof (cases s)
  case Nil
  then show ?thesis by simp
next
  case (Cons c cs)
  assume "digits_only s"
  with Cons show ?thesis by (cases cs) (auto simp: is_digit_def)
qed

lemma number_value_toString10: "number_value (toString10 n) = Some n"
  using digits_not_hex_prefixed [OF digits_only_toString10 [of n]]
  by (simp add: number_value_def match_digits_toString10 parse_dec_toString10)

lemma encodes_random_id: "encodes_uint256 (toString10 (be_value 0 (randomBytes 32 rng)))"
proof -
  have "be_value 0 (randomBytes 32 rng) < (0 + 1) * 256 ^ length (randomBytes 32 rng)"
    by (rule be_value_bound)
  moreover have "(256::nat) ^ 32 = 2 ^ 256" by simp
  ultimately have "be_value 0 (randomBytes 32 rng) < 2 ^ 256"
    by (simp add: randomBytes_def)
  then show ?thesis
    by (simp add: encodes_uint256_def number_value_toString10)
qed

lemma encodes_first_digit: "encodes_uint256 s \<Longrightarrow> \<exists>c cs. s = c # cs \<and> is_digit c"
proof (cases s)
  case Nil
  assume "encodes_uint256 s"
  with Nil show ?thesis by (simp add: encodes_uint256_def number_value_def match_digits_def)
next
  case (Cons c cs)
  assume "encodes_uint256 s"
  with Cons have "is_digit c"
    by (auto simp: encodes_uint256_def number_value_def match_digits_def is_digit_def
             split: if_splits option.splits)
  with Cons show ?thesis by simp
qed

lemma lower_char_digits: "list_all (\<lambda>c. lower_char c = c) ''0123456789''"
  by (simp add: lower_char_def)

lemma lower_char_digit: "is_digit c \<Longrightarrow> lower_char c = c"
  using lower_char_digits by (simp only: list_all_iff is_digit_def)

lemma encodes_not_route_word:
  "encodes_uint256 s \<Longrightarrow> \<not> same_segment s ''tokens'' \<and> \<not> same_segment s ''balance''"
proof -
  assume "encodes_uint256 s"
  then obtain c cs where s: "s = c # cs" and d: "is_digit c"
    using encodes_first_digit by blast
  have l: "lower_char CHR ''t'' = CHR ''t''" "lower_char CHR ''b'' = CHR ''b''"
    by (simp_all add: lower_char_def)
  have "c \<noteq> CHR ''t'' \<and> c \<noteq> CHR ''b''"
    using d by (auto simp: is_digit_def)
  then show ?thesis
    by (simp add: s same_segment_def l lower_char_digit [OF d])
qed

lemma same_segment_literals:
  "same_segment ''tokens'' ''tokens''" "same_segment ''tokenURI'' ''tokenURI''"
  "\<not> same_segment ''tokens'' ''tokenURI''" "\<not> same_segment ''tokenURI'' ''tokens''"
  by (simp_all add: same_segment_def lower_char_def)

section \<open>The read routes\<close>

text \<open>
  Claim C10 as stated has the raw string forwarded for every path parameter. After
  \<open>/tokenURI/\<close> the segment \<open>7x\<close> reaches the handler, the method throws on it before
  a promise exists: nothing is forwarded and no body is sent, on a chain whose every call
  would fail. The segment \<open>balance\<close> does not reach the handler: the owner route
  registered before it answers, with \<open>tokenURI\<close> as the owner.
\<close>

theorem tokenURI_unencodable_id_throws:
  "\<not> encodes_uint256 ''7x'' \<and>
   serve booted GET [''tokenURI'', ''7x''] [] [] zero_rng failing_chain =
     Some \<lparr>body = None, calls = [], logged = [], uncaught = Some (invalid_number ''7x'')\<rparr> \<and>
   serve booted GET [''tokenURI'', ''balance''] [] [] zero_rng sample_chain =
     Some \<lparr>body = Some (JObj [(''balance'', JNum 2)]), calls = [CallBalanceOf ''tokenURI''],
           logged = [], uncaught = None\<rparr>"
proof -
  have n: "\<not> encodes_uint256 ''7x''"
    by (simp add: encodes_uint256_def number_value_def match_digits_def is_digit_def)
  have a: "serve booted GET [''tokenURI'', ''7x''] [] [] zero_rng failing_chain =
     Some \<lparr>body = None, calls = [], logged = [], uncaught = Some (invalid_number ''7x'')\<rparr>"
    using n
    by (simp add: serve_def express_dispatch_def same_segment_def lower_char_def handle_def
        route_tokenURI_def)
  have b: "serve booted GET [''tokenURI'', ''balance''] [] [] zero_rng sample_chain =
     Some \<lparr>body = Some (JObj [(''balance'', JNum 2)]), calls = [CallBalanceOf ''tokenURI''],
           logged = [], uncaught = None\<rparr>"
    by (simp add: serve_def express_dispatch_def same_segment_def lower_char_def handle_def
        route_owner_balance_def respond_def sample_chain_def)
  show ?thesis using n a b by simp
qed

text \<open>
  Claim C10, as the code has it. For every path parameter that web3 can encode as a
  \<open>uint256\<close> (a decimal or \<open>0x\<close>-hexadecimal number below \<open>2^256\<close>), the request
  \<open>GET /tokenURI/:tokenId\<close> is answered by the handler of that route, which checks
  nothing locally: the one remote call it issues is \<open>tokenURI\<close> on the raw string. The
  body is \<open>{error: <stringified error>}\<close> exactly when that call fails, and
  \<open>{tokenURI: <result>}\<close> otherwise.
\<close>

theorem tokenURI_forwards_raw_id:
  "encodes_uint256 tokenId \<Longrightarrow>
   serve rt GET [''tokenURI'', tokenId] to settle rng ch = Some (route_tokenURI ch tokenId) \<and>
   calls (route_tokenURI ch tokenId) = [CallTokenURI tokenId] \<and>
   body (route_tokenURI ch tokenId) =
     Some (case tokenURI_call ch tokenId of
             Inl err \<Rightarrow> JObj [(''error'', JStr (toString_error err))]
           | Inr uri \<Rightarrow> JObj [(''tokenURI'', JStr uri)]) \<and>
   ((\<exists>err. tokenURI_call ch tokenId = Inl err) =
    (\<exists>msg. body (route_tokenURI ch tokenId) = Some (JObj [(''error'', JStr msg)])))"
proof -
  assume e: "encodes_uint256 tokenId"
  then have w: "\<not> same_segment tokenId ''tokens'' \<and> \<not> same_segment tokenId ''balance''"
    by (rule encodes_not_route_word)
  from e have ne: "tokenId \<noteq> []" using encodes_first_digit by blast
  have d: "express_dispatch GET [''tokenURI'', tokenId] to settle rng = Some (GetTokenURI tokenId)"
    using w ne by (simp add: express_dispatch_def same_segment_literals)
  have s: "serve rt GET [''tokenURI'', tokenId] to settle rng ch = Some (route_tokenURI ch tokenId)"
    by (simp add: serve_def d handle_def)
  show ?thesis
    using e by (cases "tokenURI_call ch tokenId") (simp_all add: s route_tokenURI_def respond_def)
qed

theorem tokenURI_forwards_raw_id_witness:
  "encodes_uint256 ''7'' \<and>
   serve booted GET [''tokenURI'', ''7''] [] [] zero_rng failing_chain =
     Some \<lparr>body = Some (JObj [(''error'', JStr ''Error: connection refused'')]),
           calls = [CallTokenURI ''7''], logged = [], uncaught = None\<rparr>"
proof -
  have e: "encodes_uint256 ''7''"
    by (simp add: encodes_uint256_def number_value_def match_digits_def is_digit_def dec_val_def
        hex_val_def)
  have t: "tokenURI_call failing_chain ''7'' = Inl sample_error" by (simp add: failing_chain_def)
  have s: "toString_error sample_error = ''Error: connection refused''"
    by (simp add: toString_error_def sample_error_def Error_def)
  have "route_tokenURI failing_chain ''7'' =
      \<lparr>body = Some (JObj [(''error'', JStr ''Error: connection refused'')]),
       calls = [CallTokenURI ''7''], logged = [], uncaught = None\<rparr>"
    using tokenURI_forwards_raw_id [OF e, of booted "[]" "[]" zero_rng failing_chain]
    by (simp add: t s route_tokenURI_def respond_def e)
  then show ?thesis
    using e tokenURI_forwards_raw_id [OF e, of booted "[]" "[]" zero_rng failing_chain] by simp
qed

text \<open>
  Claim C6 as stated covers every path parameter that \<open>^\d+$\<close> does not match. The
  request \<open>GET /tokens/balance\<close> never reaches the guard: the owner route registered
  before it answers, with \<open>tokens\<close> as the owner and a \<open>balanceOf\<close> call, whether the
  chain answers that call or fails it.
\<close>

theorem tokens_balance_answered_by_owner_route:
  "\<not> match_digits ''balance'' \<and>
   express_dispatch GET [''tokens'', ''balance''] [] [] zero_rng = Some (GetOwnerBalance ''tokens'') \<and>
   serve booted GET [''tokens'', ''balance''] [] [] zero_rng sample_chain =
     Some \<lparr>body = Some (JObj [(''balance'', JNum 2)]), calls = [CallBalanceOf ''tokens''],
           logged = [], uncaught = None\<rparr> \<and>
   serve booted GET [''tokens'', ''balance''] [] [] zero_rng failing_chain =
     Some \<lparr>body = Some (JError sample_error), calls = [CallBalanceOf ''tokens''],
           logged = [], uncaught = None\<rparr>"
  by (simp add: match_digits_def is_digit_def serve_def express_dispatch_def same_segment_def
      lower_char_def handle_def route_owner_balance_def respond_def sample_chain_def
      failing_chain_def)

text \<open>
  Claim C6, as the code has it. For every path parameter that \<open>^\d+$\<close> does not match,
  the handler of \<open>GET /tokens/:tokenId\<close> answers
  \<open>{error: {message: 'Invalid token id passed'}}\<close> and issues no remote call; and the
  request \<open>GET /tokens/:tokenId\<close> is answered so for every such parameter other than
  \<open>tokens\<close> and \<open>balance\<close>, in any letter case.
\<close>

theorem invalid_token_id_short_circuits:
  "\<not> match_digits tokenId \<Longrightarrow>
   body (route_tokens_tokenId a env ch tokenId) =
     Some (JObj [(''error'', JObj [(''message'', JStr ''Invalid token id passed'')])]) \<and>
   calls (route_tokens_tokenId a env ch tokenId) = [] \<and>
   (tokenId \<noteq> [] \<and> \<not> same_segment tokenId ''tokens'' \<and> \<not> same_segment tokenId ''balance'' \<longrightarrow>
      serve rt GET [''tokens'', tokenId] to settle rng ch =
        Some \<lparr>body = Some (JObj [(''error'', JObj [(''message'', JStr ''Invalid token id passed'')])]),
              calls = [], logged = [], uncaught = None\<rparr>)"
  by (simp add: route_tokens_tokenId_def respond_def invalid_token_id_def serve_def
      express_dispatch_def handle_def same_segment_literals)

theorem invalid_token_id_short_circuits_witness:
  "\<not> match_digits ''12a'' \<and> ''12a'' \<noteq> [] \<and>
   \<not> same_segment ''12a'' ''tokens'' \<and> \<not> same_segment ''12a'' ''balance'' \<and>
   body (route_tokens_tokenId sample_app sample_env sample_chain ''12a'') =
     Some (JObj [(''error'', JObj [(''message'', JStr ''Invalid token id passed'')])]) \<and>
   calls (route_tokens_tokenId sample_app sample_env sample_chain ''12a'') = [] \<and>
   serve booted GET [''tokens'', ''12a''] [] [] zero_rng sample_chain =
     Some \<lparr>body = Some (JObj [(''error'', JObj [(''message'', JStr ''Invalid token id passed'')])]),
           calls = [], logged = [], uncaught = None\<rparr>"
proof -
  have h: "\<not> match_digits ''12a''" by (simp add: match_digits_def is_digit_def)
  have w: "\<not> same_segment ''12a'' ''tokens'' \<and> \<not> same_segment ''12a'' ''balance''"
    by (simp add: same_segment_def)
  show ?thesis
    using h w
      invalid_token_id_short_circuits
        [OF h, of sample_app sample_env sample_chain booted "[]" "[]" zero_rng]
    by simp
qed



section \<open>The balance refresh\<close>

text \<open>
  Claim C8. When the balance query of a tick settles with a failure, the application
  object is what it was (the stored balance included) and the error is written to the
  console; when it settles with a result, the stored balance is that result and nothing
  else of the application object changes.
\<close>

theorem refresh_settles_balance:
  "q \<in> set (inflight rt) \<Longrightarrow>
   map_option app (step rt (BalanceSettles q (Inl e))) = Some (app rt) \<and>
   map_option console (step rt (BalanceSettles q (Inl e))) = Some (console rt @ [LogError e]) \<and>
   map_option app (step rt (BalanceSettles q (Inr b))) = Some ((app rt)\<lparr>balance := b\<rparr>) \<and>
   map_option (\<lambda>s. balance (app s)) (step rt (BalanceSettles q (Inr b))) = Some b"
  by (simp add: getBalance_then_def getBalance_catch_def)

theorem refresh_settles_balance_witness:
  "0 \<in> set (inflight ticking) \<and>
   map_option app (step ticking (BalanceSettles 0 (Inl sample_error))) = Some (app ticking) \<and>
   map_option console (step ticking (BalanceSettles 0 (Inl sample_error))) =
     Some (console ticking @ [LogError sample_error]) \<and>
   map_option app (step ticking (BalanceSettles 0 (Inr ''999''))) =
     Some ((app ticking)\<lparr>balance := ''999''\<rparr>) \<and>
   map_option (\<lambda>s. balance (app s)) (step ticking (BalanceSettles 0 (Inr ''999''))) = Some ''999''"
proof -
  have h: "0 \<in> set (inflight ticking)" by (simp add: ticking_def)
  show ?thesis
    using h refresh_settles_balance [OF h, of sample_error "''999''"]
    by simp
qed

section \<open>The token listing\<close>

lemma push_promises_upt:
  "push_promises ch owner i n promises =
     promises @ map (\<lambda>j. (j, tokenOfOwnerByIndex_call ch owner j)) [i..<n]"
proof (induction ch owner i n promises rule: push_promises.induct)
  case (1 ch owner i n promises)
  show ?case
  proof (cases "i < n")
    case True
    then show ?thesis
      using "1.IH" by (subst push_promises.simps) (simp add: upt_rec [of i n])
  next
    case False
    then show ?thesis by (subst push_promises.simps) simp
  qed
qed

lemma first_rejection_fulfilled: "first_rejection (map Inr vs) settle = None"
  by (induction settle) simp_all

lemma fulfilled_values_Inr: "fulfilled_values (map Inr vs) = vs"
  by (induction vs) simp_all

lemma promise_all_fulfilled: "promise_all (map Inr vs) settle = Inr vs"
  by (simp add: promise_all_def first_rejection_fulfilled fulfilled_values_Inr)

lemma first_rejection_sound:
  "first_rejection rs order = Some e \<Longrightarrow> \<exists>j<length rs. rs ! j = Inl e"
proof (induction order)
  case Nil
  then show ?case by simp
next
  case (Cons i order)
  show ?case
  proof (cases "i < length rs")
    case False
    with Cons show ?thesis by simp
  next
    case True
    show ?thesis
    proof (cases "rs ! i")
      case (Inl x)
      with True Cons.prems have "x = e" by simp
      with Inl True show ?thesis by blast
    next
      case (Inr v)
      with True Cons show ?thesis by simp
    qed
  qed
qed

lemma first_rejection_complete:
  "i \<in> set order \<Longrightarrow> i < length rs \<Longrightarrow> rs ! i = Inl e \<Longrightarrow> first_rejection rs order \<noteq> None"
proof (induction order)
  case Nil
  then show ?case by simp
next
  case (Cons k order)
  show ?case
  proof (cases "k = i")
    case True
    with Cons.prems show ?thesis by simp
  next
    case False
    with Cons.prems have "i \<in> set order" by simp
    then have "first_rejection rs order \<noteq> None"
      using Cons.prems(2) Cons.prems(3) by (rule Cons.IH)
    then show ?thesis by (simp split: sum.splits)
  qed
qed

lemma promise_all_rejected:
  assumes "i < length rs" and "rs ! i = Inl e"
  shows "\<exists>j<length rs. \<exists>e'. rs ! j = Inl e' \<and> promise_all rs settle = Inl e'"
proof -
  have "i \<in> set (settle @ [0..<length rs])" using assms(1) by simp
  then have "first_rejection rs (settle @ [0..<length rs]) \<noteq> None"
    using assms by (rule first_rejection_complete)
  then obtain e' where f: "first_rejection rs (settle @ [0..<length rs]) = Some e'"
    by (cases "first_rejection rs (settle @ [0..<length rs])") simp_all
  from first_rejection_sound [OF f] obtain j where j: "j < length rs" and r: "rs ! j = Inl e'"
    by (elim exE conjE)
  have "promise_all rs settle = Inl e'" by (simp add: promise_all_def f)
  with j r show ?thesis by (intro exI conjI)
qed

text \<open>
  Claim C5 as stated answers the list whenever \<open>balanceOf\<close> returns. On a chain where
  the owner holds two tokens and the read of the second one fails, the body is the raw
  error of that read, not a list.
\<close>

theorem owner_tokens_rejected_read:
  "balanceOf_call flaky_chain ''0xA1'' = Inr 2 \<and>
   route_owner_tokens flaky_chain ''0xA1'' [0, 1] =
     \<lparr>body = Some (JError sample_error),
      calls = [CallBalanceOf ''0xA1'', CallTokenOfOwnerByIndex ''0xA1'' 0,
               CallTokenOfOwnerByIndex ''0xA1'' 1],
      logged = [], uncaught = None\<rparr>"
proof -
  have b: "balanceOf_call flaky_chain ''0xA1'' = Inr 2"
    by (simp add: flaky_chain_def sample_chain_def)
  have p: "push_promises flaky_chain ''0xA1'' 0 2 [] = [(0, Inr ''7''), (1, Inl sample_error)]"
    by (simp add: push_promises_upt upt_rec flaky_chain_def)
  show ?thesis
    by (simp add: b route_owner_tokens_def Let_def p promise_all_def respond_def)
qed

text \<open>
  Claim C5, as the code has it. When \<open>balanceOf(owner)\<close> returns \<open>n\<close>,
  \<open>GET /:ownerAddress/tokens\<close> issues \<open>tokenOfOwnerByIndex(owner, i)\<close> for each index
  below \<open>n\<close>. When each of these reads returns a token id, the body is
  \<open>{tokens: [...]}\<close> with exactly \<open>n\<close> elements, the \<open>i\<close>-th being the value of
  \<open>tokenOfOwnerByIndex(owner, i)\<close>, whatever the order in which the reads settle. When
  one of them fails, the body is the raw error of a read that failed.
\<close>

theorem owner_tokens_lists_every_index:
  "balanceOf_call ch owner = Inr n \<Longrightarrow>
   calls (route_owner_tokens ch owner settle) =
     CallBalanceOf owner # map (CallTokenOfOwnerByIndex owner) [0..<n] \<and>
   ((\<forall>i<n. tokenOfOwnerByIndex_call ch owner i = Inr (token i)) \<longrightarrow>
      body (route_owner_tokens ch owner settle) =
        Some (JObj [(''tokens'', JArr (map (\<lambda>i. JStr (token i)) [0..<n]))]) \<and>
      length (map (\<lambda>i. JStr (token i)) [0..<n]) = n) \<and>
   ((\<exists>i<n. \<exists>e. tokenOfOwnerByIndex_call ch owner i = Inl e) \<longrightarrow>
      (\<exists>j<n. \<exists>e. tokenOfOwnerByIndex_call ch owner j = Inl e \<and>
         body (route_owner_tokens ch owner settle) = Some (JError e)))"
proof -
  assume b: "balanceOf_call ch owner = Inr n"
  let ?reads = "map (\<lambda>j. tokenOfOwnerByIndex_call ch owner j) [0..<n]"
  have p: "map snd (push_promises ch owner 0 n []) = ?reads"
    by (simp add: push_promises_upt comp_def)
  have c: "map (\<lambda>p. CallTokenOfOwnerByIndex owner (fst p)) (push_promises ch owner 0 n []) =
      map (CallTokenOfOwnerByIndex owner) [0..<n]"
    by (simp add: push_promises_upt comp_def)
  have r: "route_owner_tokens ch owner settle =
      (case promise_all ?reads settle of
         Inr tokens \<Rightarrow>
           respond (JObj [(''tokens'', JArr (map JStr tokens))])
             (CallBalanceOf owner # map (CallTokenOfOwnerByIndex owner) [0..<n])
       | Inl e \<Rightarrow>
           respond (JError e) (CallBalanceOf owner # map (CallTokenOfOwnerByIndex owner) [0..<n]))"
    unfolding route_owner_tokens_def Let_def
    by (simp only: b p c sum.case)
  have calls: "calls (route_owner_tokens ch owner settle) =
      CallBalanceOf owner # map (CallTokenOfOwnerByIndex owner) [0..<n]"
    by (cases "promise_all ?reads settle") (simp_all add: r respond_def)
  have fulfilled: "body (route_owner_tokens ch owner settle) =
      Some (JObj [(''tokens'', JArr (map (\<lambda>i. JStr (token i)) [0..<n]))])"
    if all: "\<forall>i<n. tokenOfOwnerByIndex_call ch owner i = Inr (token i)"
  proof -
    have "?reads = map (\<lambda>j. Inr (token j)) [0..<n]"
      by (rule map_cong [OF refl]) (simp add: all)
    also have "\<dots> = map Inr (map token [0..<n])" by (simp add: comp_def)
    finally have "promise_all ?reads settle = Inr (map token [0..<n])"
      by (simp only: promise_all_fulfilled)
    then show ?thesis by (simp add: r respond_def comp_def)
  qed
  have rejected: "\<exists>j<n. \<exists>e. tokenOfOwnerByIndex_call ch owner j = Inl e \<and>
      body (route_owner_tokens ch owner settle) = Some (JError e)"
    if some: "\<exists>i<n. \<exists>e. tokenOfOwnerByIndex_call ch owner i = Inl e"
  proof -
    from some obtain i e where i: "i < n" and e: "tokenOfOwnerByIndex_call ch owner i = Inl e"
      by (elim exE conjE)
    have il: "i < length ?reads" using i by simp
    have ie: "?reads ! i = Inl e" using i e by simp
    from promise_all_rejected [OF il ie, of settle]
    obtain j e' where j: "j < length ?reads" and e': "?reads ! j = Inl e'"
      and a: "promise_all ?reads settle = Inl e'"
      by (elim exE conjE)
    from j have jn: "j < n" by simp
    with e' have "tokenOfOwnerByIndex_call ch owner j = Inl e'" by simp
    moreover have "body (route_owner_tokens ch owner settle) = Some (JError e')"
      by (simp add: r a respond_def)
    ultimately show ?thesis using jn by (intro exI conjI)
  qed
  show ?thesis
  proof (intro conjI impI)
    show "calls (route_owner_tokens ch owner settle) =
      CallBalanceOf owner # map (CallTokenOfOwnerByIndex owner) [0..<n]"
      by (rule calls)
  next
    assume "\<forall>i<n. tokenOfOwnerByIndex_call ch owner i = Inr (token i)"
    then show "body (route_owner_tokens ch owner settle) =
      Some (JObj [(''tokens'', JArr (map (\<lambda>i. JStr (token i)) [0..<n]))])"
      by (rule fulfilled)
  next
    show "length (map (\<lambda>i. JStr (token i)) [0..<n]) = n" by simp
  next
    assume "\<exists>i<n. \<exists>e. tokenOfOwnerByIndex_call ch owner i = Inl e"
    then show "\<exists>j<n. \<exists>e. tokenOfOwnerByIndex_call ch owner j = Inl e \<and>
      body (route_owner_tokens ch owner settle) = Some (JError e)"
      by (rule rejected)
  qed
qed

theorem owner_tokens_lists_every_index_witness:
  "body (route_owner_tokens sample_chain ''0xA1'' [1, 0]) =
     Some (JObj [(''tokens'', JArr [JStr ''7'', JStr ''9''])]) \<and>
   calls (route_owner_tokens sample_chain ''0xA1'' [1, 0]) =
     [CallBalanceOf ''0xA1'', CallTokenOfOwnerByIndex ''0xA1'' 0, CallTokenOfOwnerByIndex ''0xA1'' 1] \<and>
   body (route_owner_tokens flaky_chain ''0xA1'' [1, 0]) = Some (JError sample_error)"
proof -
  have b: "balanceOf_call sample_chain ''0xA1'' = Inr 2" by (simp add: sample_chain_def)
  have t: "\<forall>i<2. tokenOfOwnerByIndex_call sample_chain ''0xA1'' i =
      Inr ((\<lambda>i. if i = 0 then ''7'' else ''9'') i)"
    by (simp add: sample_chain_def)
  have b': "balanceOf_call flaky_chain ''0xA1'' = Inr 2"
    by (simp add: flaky_chain_def sample_chain_def)
  have f: "\<exists>i<2. \<exists>e. tokenOfOwnerByIndex_call flaky_chain ''0xA1'' i = Inl e"
    by (auto simp: flaky_chain_def intro: exI [of _ 1])
  have only: "\<And>j e. tokenOfOwnerByIndex_call flaky_chain ''0xA1'' j = Inl e \<Longrightarrow> e = sample_error"
    by (simp add: flaky_chain_def split: if_splits)
  note flaky = owner_tokens_lists_every_index [OF b', of "[1, 0]" "\<lambda>i. ''7''"]
  have "(\<exists>i<2. \<exists>e. tokenOfOwnerByIndex_call flaky_chain ''0xA1'' i = Inl e) \<longrightarrow>
      (\<exists>j<2. \<exists>e. tokenOfOwnerByIndex_call flaky_chain ''0xA1'' j = Inl e \<and>
         body (route_owner_tokens flaky_chain ''0xA1'' [1, 0]) = Some (JError e))"
    by (rule conjunct2 [OF conjunct2 [OF flaky]])
  with f obtain j e where "tokenOfOwnerByIndex_call flaky_chain ''0xA1'' j = Inl e"
    and "body (route_owner_tokens flaky_chain ''0xA1'' [1, 0]) = Some (JError e)"
    by blast
  with only have "body (route_owner_tokens flaky_chain ''0xA1'' [1, 0]) = Some (JError sample_error)"
    by simp
  then show ?thesis
    using owner_tokens_lists_every_index
      [OF b, of "[1, 0]" "\<lambda>i. if i = 0 then ''7'' else ''9''"] t
    by (simp add: upt_rec)
qed


section \<open>Minting\<close>

text \<open>
  Claim C4. When the gas estimate of a \<open>POST /tokens/new\<close> request fails, the body is
  exactly \<open>{error: <stringified error>}\<close>, the only remote call issued is the estimate
  (no \<open>send\<close>), and the turn changes nothing of the runtime but the record of the reply:
  the application object is what it was.
\<close>

theorem gas_estimation_failure:
  assumes "estimateGas_call ch
             \<lparr>mint_to = to, mint_tokenId = randomHex 32 rng,
              mint_tokenURI = or_default (API_URL (penv rt)) ''https://example-dapp-1-api.bitski.com''
                @ ''/tokens/'' @ toString10 (be_value 0 (randomBytes 32 rng))\<rparr> = Inl e"
    and "listening rt = Some port"
  shows "body (handle rt (PostTokensNew to rng) ch) = Some (JObj [(''error'', JStr (toString_error e))]) \<and>
         calls (handle rt (PostTokensNew to rng) ch) =
           [EstimateGas
              \<lparr>mint_to = to, mint_tokenId = randomHex 32 rng,
               mint_tokenURI = or_default (API_URL (penv rt)) ''https://example-dapp-1-api.bitski.com''
                 @ ''/tokens/'' @ toString10 (be_value 0 (randomBytes 32 rng))\<rparr>] \<and>
         (\<forall>m options. Send m options \<notin> set (calls (handle rt (PostTokensNew to rng) ch))) \<and>
         step rt (Http (PostTokensNew to rng) ch) =
           Some (rt\<lparr>replies := replies rt @ [handle rt (PostTokensNew to rng) ch]\<rparr>) \<and>
         map_option app (step rt (Http (PostTokensNew to rng) ch)) = Some (app rt)"
proof -
  have r: "handle rt (PostTokensNew to rng) ch =
      respond (error_body (toString_error e))
        [EstimateGas
              \<lparr>mint_to = to, mint_tokenId = randomHex 32 rng,
               mint_tokenURI = or_default (API_URL (penv rt)) ''https://example-dapp-1-api.bitski.com''
                 @ ''/tokens/'' @ toString10 (be_value 0 (randomBytes 32 rng))\<rparr>]"
    using assms(1)
    by (simp add: handle_def route_tokens_new_def hexToNumberString_randomHex Let_def)
  show ?thesis
    using assms(2) by (simp add: r respond_def error_body_def)
qed

theorem gas_estimation_failure_witness:
  "body (handle booted (PostTokensNew ''0xB0B'' zero_rng) failing_chain) =
     Some (JObj [(''error'', JStr ''Error: connection refused'')]) \<and>
   (\<forall>m options. Send m options \<notin> set (calls (handle booted (PostTokensNew ''0xB0B'' zero_rng) failing_chain))) \<and>
   map_option app (step booted (Http (PostTokensNew ''0xB0B'' zero_rng) failing_chain)) = Some (app booted)"
proof -
  have g: "estimateGas_call failing_chain
             \<lparr>mint_to = ''0xB0B'', mint_tokenId = randomHex 32 zero_rng,
              mint_tokenURI = or_default (API_URL (penv booted)) ''https://example-dapp-1-api.bitski.com''
                @ ''/tokens/'' @ toString10 (be_value 0 (randomBytes 32 zero_rng))\<rparr> = Inl sample_error"
    by (simp add: failing_chain_def)
  have l: "listening booted = Some 3000" by (simp add: booted_def)
  have s: "toString_error sample_error = ''Error: connection refused''"
    by (simp add: toString_error_def sample_error_def Error_def)
  show ?thesis
    using gas_estimation_failure [OF g l] by (simp add: s)
qed

section \<open>What may change after startup\<close>

lemma step_app:
  "step rt ev = Some rt' \<Longrightarrow> app rt' = (app rt)\<lparr>balance := settled_balance (balance (app rt)) [ev]\<rparr>"
proof (cases ev)
  case (BalanceSettles q r)
  assume "step rt ev = Some rt'"
  with BalanceSettles show ?thesis
    by (cases r)
      (auto simp: settled_balance_def getBalance_then_def getBalance_catch_def split: if_splits)
next
  case TimerFires
  assume "step rt ev = Some rt'"
  with TimerFires show ?thesis
    by (auto simp: settled_balance_def updateBalance_timeout_def updateBalance_def setTimeout_def
             split: list.splits if_splits)
qed (auto simp: settled_balance_def transfer_data_def transfer_error_def Let_def
          split: option.splits if_splits)

lemma settled_balance_step:
  "settled_balance b (ev # evs) = settled_balance (settled_balance b [ev]) evs"
  by (simp add: settled_balance_def)

lemma run_app:
  "run rt evs = Some rt' \<Longrightarrow> app rt' = (app rt)\<lparr>balance := settled_balance (balance (app rt)) evs\<rparr>"
proof (induction evs arbitrary: rt)
  case Nil
  then show ?case by (simp add: settled_balance_def)
next
  case (Cons ev evs)
  from Cons.prems obtain mid where s: "step rt ev = Some mid" and r: "run mid evs = Some rt'"
    by (auto split: option.splits)
  have "app rt' = (app mid)\<lparr>balance := settled_balance (balance (app mid)) evs\<rparr>"
    by (rule Cons.IH [OF r])
  moreover have "app mid = (app rt)\<lparr>balance := settled_balance (balance (app rt)) [ev]\<rparr>"
    by (rule step_app [OF s])
  ultimately show ?case
    by (simp add: settled_balance_step [of _ ev evs])
qed

lemma quiet_turns_run: "run booted quiet_turns \<noteq> None"
  by (simp add: quiet_turns_def booted_def handle_def route_root_def route_tokenURI_def respond_def
      transfer_data_def transfer_error_def updateBalance_timeout_def updateBalance_def
      setTimeout_def getBalance_catch_def Let_def failing_chain_def)

text \<open>
  Claim C9. Whatever turns follow startup (requests to any route, Transfer events and
  subscription errors, timer ticks, settling refresh queries), the network id, the
  current account, the contract handle and the cached name stay what they were; the
  balance is the one the settled refresh queries determine, so only they write it.
\<close>

theorem only_refresh_writes_balance:
  "run rt evs = Some rt' \<Longrightarrow>
   networkId (app rt') = networkId (app rt) \<and>
   currentAccount (app rt') = currentAccount (app rt) \<and>
   contract (app rt') = contract (app rt) \<and>
   name (app rt') = name (app rt) \<and>
   balance (app rt') = settled_balance (balance (app rt)) evs"
  by (drule run_app) simp

theorem only_refresh_writes_balance_witness:
  "run booted quiet_turns \<noteq> None \<and>
   settled_balance ''1000'' quiet_turns = ''1000'' \<and>
   app (the (run booted quiet_turns)) = sample_app"
proof -
  have r: "run booted quiet_turns = Some (the (run booted quiet_turns))"
    using quiet_turns_run by simp
  have b: "settled_balance ''1000'' quiet_turns = ''1000''"
    by (simp add: quiet_turns_def settled_balance_def)
  have a: "app booted = sample_app" by (simp add: booted_def)
  have s: "balance sample_app = ''1000''" by (simp add: sample_app_def)
  show ?thesis
    using only_refresh_writes_balance [OF r] quiet_turns_run
    by (simp add: a s b app_state.equality)
qed

section \<open>The minted token id\<close>

lemma randomHex_zero: "randomHex 32 zero_rng = zero_hex"
  by (simp add: randomHex_def randomBytes_def zero_rng_def upt_rec hex_byte_def hex_digit_def
      zero_hex_def)

lemma route_tokens_new_estimated:
  assumes "estimateGas_call ch
             \<lparr>mint_to = to, mint_tokenId = randomHex 32 rng,
              mint_tokenURI = or_default (API_URL env) ''https://example-dapp-1-api.bitski.com''
                @ ''/tokens/'' @ toString10 (be_value 0 (randomBytes 32 rng))\<rparr> = Inr gas"
  shows "route_tokens_new a env ch to rng =
     (let method = \<lparr>mint_to = to, mint_tokenId = randomHex 32 rng,
              mint_tokenURI = or_default (API_URL env) ''https://example-dapp-1-api.bitski.com''
                @ ''/tokens/'' @ toString10 (be_value 0 (randomBytes 32 rng))\<rparr>;
          options = \<lparr>send_from = currentAccount a, send_gas = gas,
                     send_gasPrice = ''1100000000''\<rparr>;
          issued = [EstimateGas method, Send method options]
      in case send_call ch method options of
           SendThrows e \<Rightarrow>
             \<lparr>body = Some (error_body (toString_error e)), calls = issued,
              logged = [LogError e], uncaught = None\<rparr>
         | SendCallback error transactionHash \<Rightarrow>
             send_callback (randomHex 32 rng) issued error transactionHash
         | SendSilent \<Rightarrow> \<lparr>body = None, calls = issued, logged = [], uncaught = None\<rparr>)"
  using assms by (simp add: route_tokens_new_def hexToNumberString_randomHex Let_def)

lemma be_value_zero: "be_value 0 (randomBytes 32 zero_rng) = 0"
  by (simp add: randomBytes_def zero_rng_def upt_rec)

text \<open>
  Claim C1, as the code has it. When the gas estimate succeeds and the callback of
  \<open>send\<close> brings no error and a transaction hash, the body is
  \<open>{transactionHash, tokenId}\<close> where \<open>tokenId\<close> is the generated value itself: the
  string of \<open>0x\<close> and the sixty-four hexadecimal digits of the thirty-two random bytes,
  never a decimal string, which \<open>toBN\<close> reads back as the number those bytes denote.
\<close>

theorem mint_success_returns_hex_id:
  assumes "estimateGas_call ch
             \<lparr>mint_to = to, mint_tokenId = randomHex 32 rng,
              mint_tokenURI = or_default (API_URL env) ''https://example-dapp-1-api.bitski.com''
                @ ''/tokens/'' @ toString10 (be_value 0 (randomBytes 32 rng))\<rparr> = Inr gas"
    and "send_call ch
             \<lparr>mint_to = to, mint_tokenId = randomHex 32 rng,
              mint_tokenURI = or_default (API_URL env) ''https://example-dapp-1-api.bitski.com''
                @ ''/tokens/'' @ toString10 (be_value 0 (randomBytes 32 rng))\<rparr>
             \<lparr>send_from = currentAccount a, send_gas = gas, send_gasPrice = ''1100000000''\<rparr>
           = SendCallback None (Some transactionHash)"
    and "transactionHash \<noteq> []"
  shows "body (route_tokens_new a env ch to rng) =
           Some (JObj [(''transactionHash'', JStr transactionHash),
                       (''tokenId'', JStr (randomHex 32 rng))]) \<and>
         take 2 (randomHex 32 rng) = ''0x'' \<and>
         length (randomHex 32 rng) = 66 \<and>
         \<not> match_digits (randomHex 32 rng) \<and>
         toBN (randomHex 32 rng) = Inr (be_value 0 (randomBytes 32 rng))"
proof -
  obtain c cs where h: "transactionHash = c # cs"
    using assms(3) by (cases transactionHash) auto
  have "body (route_tokens_new a env ch to rng) =
           Some (JObj [(''transactionHash'', JStr transactionHash),
                       (''tokenId'', JStr (randomHex 32 rng))])"
    using assms(2)
    by (simp add: route_tokens_new_estimated [OF assms(1)] Let_def send_callback_def respond_def h)
  moreover have "take 2 (randomHex 32 rng) = ''0x''"
    by (simp add: randomHex_def)
  moreover have "length (randomHex 32 rng) = 66"
    by (simp add: length_randomHex)
  ultimately show ?thesis
    by (simp add: toBN_randomHex randomHex_not_decimal)
qed

theorem mint_success_returns_hex_id_witness:
  "body (route_tokens_new sample_app sample_env sample_chain ''0xB0B'' zero_rng) =
     Some (JObj [(''transactionHash'', JStr ''0xabc''),
                 (''tokenId'', JStr (randomHex 32 zero_rng))]) \<and>
   take 2 (randomHex 32 zero_rng) = ''0x'' \<and>
   length (randomHex 32 zero_rng) = 66 \<and>
   \<not> match_digits (randomHex 32 zero_rng)"
proof -
  have g: "estimateGas_call sample_chain
             \<lparr>mint_to = ''0xB0B'', mint_tokenId = randomHex 32 zero_rng,
              mint_tokenURI = or_default (API_URL sample_env) ''https://example-dapp-1-api.bitski.com''
                @ ''/tokens/'' @ toString10 (be_value 0 (randomBytes 32 zero_rng))\<rparr> = Inr 90000"
    by (simp add: sample_chain_def)
  have s: "send_call sample_chain
             \<lparr>mint_to = ''0xB0B'', mint_tokenId = randomHex 32 zero_rng,
              mint_tokenURI = or_default (API_URL sample_env) ''https://example-dapp-1-api.bitski.com''
                @ ''/tokens/'' @ toString10 (be_value 0 (randomBytes 32 zero_rng))\<rparr>
             \<lparr>send_from = currentAccount sample_app, send_gas = 90000,
              send_gasPrice = ''1100000000''\<rparr>
           = SendCallback None (Some ''0xabc'')"
    by (simp add: sample_chain_def)
  have n: "''0xabc'' \<noteq> []" by simp
  show ?thesis
    using mint_success_returns_hex_id [OF g s n] by simp
qed

text \<open>
  Claim C1 as stated asks for a decimal string. With thirty-two zero bytes drawn, on a
  chain that answers every call, the decimal rendering is \<open>0\<close> while the \<open>tokenId\<close> of
  the body is the 66-character hexadecimal string, which \<open>^\d+$\<close> does not match.
\<close>

theorem mint_success_id_not_decimal:
  "estimateGas_call sample_chain
     \<lparr>mint_to = ''0xB0B'', mint_tokenId = randomHex 32 zero_rng,
      mint_tokenURI = ''https://example-dapp-1-api.bitski.com/tokens/0''\<rparr> = Inr 90000 \<and>
   send_call sample_chain
     \<lparr>mint_to = ''0xB0B'', mint_tokenId = randomHex 32 zero_rng,
      mint_tokenURI = ''https://example-dapp-1-api.bitski.com/tokens/0''\<rparr>
     \<lparr>send_from = ''0xA1'', send_gas = 90000, send_gasPrice = ''1100000000''\<rparr> =
       SendCallback None (Some ''0xabc'') \<and>
   hexToNumberString (randomHex 32 zero_rng) = Inr ''0'' \<and>
   body (route_tokens_new sample_app sample_env sample_chain ''0xB0B'' zero_rng) =
     Some (JObj [(''transactionHash'', JStr ''0xabc''),
                 (''tokenId'', JStr ''0x0000000000000000000000000000000000000000000000000000000000000000'')]) \<and>
   body (route_tokens_new sample_app sample_env sample_chain ''0xB0B'' zero_rng) \<noteq>
     Some (JObj [(''transactionHash'', JStr ''0xabc''), (''tokenId'', JStr ''0'')]) \<and>
   \<not> match_digits ''0x0000000000000000000000000000000000000000000000000000000000000000''"
proof -
  have d: "toString10 0 = ''0''"
    by (subst toString10.simps) (simp add: hex_digit_def)
  have h: "hexToNumberString (randomHex 32 zero_rng) = Inr ''0''"
    by (simp add: hexToNumberString_randomHex be_value_zero d)
  have b: "body (route_tokens_new sample_app sample_env sample_chain ''0xB0B'' zero_rng) =
     Some (JObj [(''transactionHash'', JStr ''0xabc''), (''tokenId'', JStr zero_hex)])"
    using h
    by (simp add: route_tokens_new_def Let_def sample_chain_def send_callback_def respond_def
        randomHex_zero)
  have m: "\<not> match_digits zero_hex"
    by (simp add: zero_hex_def match_digits_def is_digit_def)
  show ?thesis
    using h b m by (simp add: sample_chain_def zero_hex_def)
qed

text \<open>
  Claim C7. For every draw of thirty-two random bytes, the decimal rendering of the token
  id is matched by \<open>^\d+$\<close>; it is the string that closes the token URI
  \<open>{API base}/tokens/{id}\<close> of the mint call; \<open>GET /tokenURI/:tokenId\<close> hands it to
  the contract as it is, and \<open>GET /tokens/:tokenId\<close>, where the URI points, lets it
  through its guard.
\<close>

theorem token_id_round_trip:
  "hexToNumberString (randomHex 32 rng) = Inr (toString10 (be_value 0 (randomBytes 32 rng))) \<and>
   match_digits (toString10 (be_value 0 (randomBytes 32 rng))) \<and>
   hd (calls (route_tokens_new a env ch to rng)) =
     EstimateGas
       \<lparr>mint_to = to, mint_tokenId = randomHex 32 rng,
        mint_tokenURI = or_default (API_URL env) ''https://example-dapp-1-api.bitski.com''
          @ ''/tokens/'' @ toString10 (be_value 0 (randomBytes 32 rng))\<rparr> \<and>
   calls (route_tokenURI ch (toString10 (be_value 0 (randomBytes 32 rng)))) =
     [CallTokenURI (toString10 (be_value 0 (randomBytes 32 rng)))] \<and>
   calls (route_tokens_tokenId a env ch (toString10 (be_value 0 (randomBytes 32 rng)))) =
     [CallImageId (toString10 (be_value 0 (randomBytes 32 rng)))]"
proof -
  let ?id = "toString10 (be_value 0 (randomBytes 32 rng))"
  let ?m = "\<lparr>mint_to = to, mint_tokenId = randomHex 32 rng,
        mint_tokenURI = or_default (API_URL env) ''https://example-dapp-1-api.bitski.com''
          @ ''/tokens/'' @ ?id\<rparr>"
  have m: "match_digits ?id" by (rule match_digits_toString10)
  have n: "hd (calls (route_tokens_new a env ch to rng)) = EstimateGas ?m"
  proof (cases "estimateGas_call ch ?m")
    case (Inl e)
    then show ?thesis
      by (simp add: route_tokens_new_def hexToNumberString_randomHex Let_def respond_def)
  next
    case (Inr gas)
    show ?thesis
      by (simp add: route_tokens_new_estimated [OF Inr] Let_def send_callback_def respond_def
               split: send_outcome.splits option.splits list.splits)
  qed
  have e: "encodes_uint256 ?id" by (rule encodes_random_id)
  have u: "calls (route_tokenURI ch ?id) = [CallTokenURI ?id]"
    using e by (cases "tokenURI_call ch ?id") (simp_all add: route_tokenURI_def respond_def)
  have t: "calls (route_tokens_tokenId a env ch ?id) = [CallImageId ?id]"
    using m e
    by (cases "imageId_call ch ?id")
       (simp_all add: route_tokens_tokenId_def respond_def Let_def toString10_nonempty)
  show ?thesis
    using m n u t by (simp add: hexToNumberString_randomHex)
qed

section \<open>A failing \<open>name()\<close> at startup\<close>

lemma start_sample: "start sample_env sample_artifacts sample_startup 3000 = Running booted"
proof -
  have "toString10 3000 = ''3000''"
    by (simp add: toString10.simps [of 3000] toString10.simps [of 300] toString10.simps [of 30]
        toString10.simps [of 3] hex_digit_def)
  then show ?thesis
    by (simp add: start_def sample_startup_def booted_def sample_app_def createServer_def
        updateBalance_def setTimeout_def watchTransferEvents_def)
qed

text \<open>
  Claim C3 as stated lets startup go on with an empty name. On the sample startup, which
  leads to a running process, a failing \<open>name()\<close> call alone makes the process log the
  error and exit with code 1.
\<close>

theorem startup_name_failure_exits:
  "start sample_env sample_artifacts nameless_startup 3000 =
     Exited 1 [LogInfo ''starting app...'', LogError sample_error] \<and>
   start sample_env sample_artifacts sample_startup 3000 = Running booted"
  by (simp add: start_sample)
     (simp add: start_def nameless_startup_def sample_startup_def start_catch_def)

text \<open>
  Claim C3, as the code has it. When accounts, balance, network id and contract have
  resolved and the \<open>name()\<close> call fails, \<open>start\<close> logs that error and exits with code
  1: the failure is fatal, no server is created and no name is cached.
\<close>

theorem name_failure_is_fatal:
  assumes "getAccounts_result st = Inr (account0 # others)"
    and "getBalance_result st account0 = Inr bal"
    and "getId_result st = Inr nid"
    and "deployed_result st nid = Inr deployed"
    and "name_result st = Inl e"
  shows "start env arts st port = Exited 1 [LogInfo ''starting app...'', LogError e]"
  using assms by (simp add: start_def start_catch_def)

theorem name_failure_is_fatal_witness:
  "start sample_env sample_artifacts nameless_startup 8080 =
     Exited 1 [LogInfo ''starting app...'', LogError sample_error]"
proof -
  have a: "getAccounts_result nameless_startup = Inr (''0xA1'' # [])"
    by (simp add: nameless_startup_def sample_startup_def)
  have b: "getBalance_result nameless_startup ''0xA1'' = Inr ''1000''"
    by (simp add: nameless_startup_def sample_startup_def)
  have i: "getId_result nameless_startup = Inr 4"
    by (simp add: nameless_startup_def sample_startup_def)
  have d: "deployed_result nameless_startup 4 = Inr \<lparr>address = ''0xC0''\<rparr>"
    by (simp add: nameless_startup_def sample_startup_def)
  have n: "name_result nameless_startup = Inl sample_error"
    by (simp add: nameless_startup_def sample_startup_def)
  show ?thesis
    by (rule name_failure_is_fatal [OF a b i d n])
qed

section \<open>The timer chain of the refresh\<close>

text \<open>
  Claim C2 as stated allows one query in flight at most. After startup, when the query
  of the first tick has not settled by the time the second tick is due, two queries are
  in flight at the second minute.
\<close>

theorem two_refresh_queries_in_flight:
  "start sample_env sample_artifacts sample_startup 3000 = Running booted \<and>
   map_option inflight (run booted slow_query_turns) = Some [0, 1] \<and>
   map_option clock (run booted slow_query_turns) = Some 120000"
  by (simp add: start_sample)
     (simp add: slow_query_turns_def booted_def updateBalance_timeout_def updateBalance_def
        setTimeout_def)

lemma step_timer_chain:
  assumes "step rt ev = Some rt'" and "timers rt = [due]"
  shows "timers rt' = [next_due (clock rt) due [ev]] \<and>
         clock rt' = (case ev of Elapse d \<Rightarrow> clock rt + d | _ \<Rightarrow> clock rt) \<and>
         length (inflight rt') + length (filter is_settle [ev]) =
           length (inflight rt) + length (filter is_tick [ev])"
proof (cases ev)
  case TimerFires
  with assms show ?thesis
    by (auto simp: updateBalance_timeout_def updateBalance_def setTimeout_def split: if_splits)
next
  case (BalanceSettles q r)
  with assms have q: "q \<in> set (inflight rt)" by (auto split: if_splits)
  then have "0 < length (inflight rt)" by (cases "inflight rt") auto
  with BalanceSettles assms q show ?thesis
    by (cases r) (auto simp: getBalance_then_def getBalance_catch_def length_remove1)
qed (use assms in \<open>auto simp: transfer_data_def transfer_error_def Let_def
        split: option.splits if_splits\<close>)

lemma next_due_step:
  "next_due now due (ev # evs) =
     next_due (case ev of Elapse d \<Rightarrow> now + d | _ \<Rightarrow> now) (next_due now due [ev]) evs"
  by (cases ev) simp_all

lemma tick_rearms:
  assumes "step rt TimerFires = Some nxt" and "timers rt = [due]"
  shows "timers nxt = [clock rt + 60000] \<and> inflight nxt = inflight rt @ [queries rt]"
  using assms
  by (auto simp: updateBalance_timeout_def updateBalance_def setTimeout_def split: if_splits)

text \<open>
  Claim C2, as the code has it. From a state with one timer pending, every sequence of
  turns leaves exactly one timer pending, due 60 seconds after the time of the last tick:
  each tick arms the next one in the same turn, 60 seconds ahead, without waiting for its
  query. The queries in flight are those issued by the ticks and not yet settled, so
  their number grows with every tick that finds the earlier ones unanswered.
\<close>

theorem refresh_timer_chain:
  "run rt evs = Some rt' \<Longrightarrow> timers rt = [due] \<Longrightarrow>
   timers rt' = [next_due (clock rt) due evs] \<and>
   length (inflight rt') + length (filter is_settle evs) =
     length (inflight rt) + length (filter is_tick evs) \<and>
   (\<forall>nxt. step rt' TimerFires = Some nxt \<longrightarrow>
      timers nxt = [clock rt' + 60000] \<and> inflight nxt = inflight rt' @ [queries rt'])"
proof (induction evs arbitrary: rt due)
  case Nil
  then show ?case using tick_rearms by auto
next
  case (Cons ev evs)
  from Cons.prems(1) obtain mid where s: "step rt ev = Some mid" and r: "run mid evs = Some rt'"
    by (auto split: option.splits)
  from step_timer_chain [OF s Cons.prems(2)]
  have t: "timers mid = [next_due (clock rt) due [ev]]"
    and k: "clock mid = (case ev of Elapse d \<Rightarrow> clock rt + d | _ \<Rightarrow> clock rt)"
    and c: "length (inflight mid) + length (filter is_settle [ev]) =
            length (inflight rt) + length (filter is_tick [ev])"
    by simp_all
  from Cons.IH [OF r t]
  have t': "timers rt' = [next_due (clock mid) (next_due (clock rt) due [ev]) evs]"
    and c': "length (inflight rt') + length (filter is_settle evs) =
             length (inflight mid) + length (filter is_tick evs)"
    and n': "\<forall>nxt. step rt' TimerFires = Some nxt \<longrightarrow>
      timers nxt = [clock rt' + 60000] \<and> inflight nxt = inflight rt' @ [queries rt']"
    by simp_all
  from t' k have "timers rt' = [next_due (clock rt) due (ev # evs)]"
    by (simp add: next_due_step [of _ _ ev evs])
  moreover from c c' have "length (inflight rt') + length (filter is_settle (ev # evs)) =
      length (inflight rt) + length (filter is_tick (ev # evs))"
    by (cases "is_settle ev"; cases "is_tick ev") simp_all
  ultimately show ?case using n' by simp
qed

lemma answered_late_run: "run booted answered_late \<noteq> None"
  by (simp add: answered_late_def slow_query_turns_def booted_def updateBalance_timeout_def
      updateBalance_def setTimeout_def getBalance_then_def)

theorem refresh_timer_chain_witness:
  "run booted answered_late \<noteq> None \<and>
   timers booted = [60000] \<and>
   timers (the (run booted answered_late)) = [180000] \<and>
   length (inflight (the (run booted answered_late))) = 1"
proof -
  have r: "run booted answered_late = Some (the (run booted answered_late))"
    using answered_late_run by simp
  have t: "timers booted = [60000]" by (simp add: booted_def)
  have i: "inflight booted = []" by (simp add: booted_def)
  have k: "clock booted = 0" by (simp add: booted_def)
  have f: "length (filter is_settle answered_late) = 1 \<and> length (filter is_tick answered_late) = 2"
    by (simp add: answered_late_def slow_query_turns_def)
  have d: "next_due 0 60000 answered_late = 180000"
    by (simp add: answered_late_def slow_query_turns_def)
  show ?thesis
    using refresh_timer_chain [OF r t] answered_late_run t by (simp add: i f k d)
qed


end
